theory Spec2Isabelle
  imports Complex_Main "HOL-Library.Sublist"
begin

section \<open>Python string operations used by \<open>backend/api.py\<close>\<close>

text \<open>
  A Python \<open>str\<close> is modelled as a \<open>string\<close> whose characters are the code points
  0..255 (ASCII and Latin-1), so \<open>length\<close> is Python's \<open>len\<close>. The operations below
  follow the Python built-ins on that range.
\<close>

definition isspace :: "char \<Rightarrow> bool" where
  \<comment> \<open>\<open>str.isspace\<close> on one character: TAB..CR, FS..US, space, NEL, NBSP.\<close>
  "isspace c = (let n = (of_char c :: nat) in
     (9 \<le> n \<and> n \<le> 13) \<or> (28 \<le> n \<and> n \<le> 32) \<or> n = 133 \<or> n = 160)"

definition strip :: "string \<Rightarrow> string" where
  \<comment> \<open>\<open>s.strip()\<close>\<close>
  "strip s = rev (dropWhile isspace (rev (dropWhile isspace s)))"

definition lower_char :: "char \<Rightarrow> char" where
  "lower_char c = (let n = (of_char c :: nat) in
     if (65 \<le> n \<and> n \<le> 90) \<or> (192 \<le> n \<and> n \<le> 222 \<and> n \<noteq> 215)
     then char_of (n + 32) else c)"

definition lower :: "string \<Rightarrow> string" where
  \<comment> \<open>\<open>s.lower()\<close>\<close>
  "lower s = map lower_char s"

fun contains :: "string \<Rightarrow> string \<Rightarrow> bool" where
  \<comment> \<open>\<open>sub in s\<close>\<close>
  "contains sub [] = (sub = [])"
| "contains sub (c # cs) = (prefix sub (c # cs) \<or> contains sub cs)"

definition startswith :: "string \<Rightarrow> string \<Rightarrow> bool" where
  \<comment> \<open>\<open>s.startswith(p)\<close>\<close>
  "startswith s p = prefix p s"

function replace :: "string \<Rightarrow> string \<Rightarrow> string \<Rightarrow> string" where
  \<comment> \<open>\<open>s.replace(old, new)\<close> for a non-empty \<open>old\<close>: leftmost non-overlapping
      occurrences. (Both calls of the source pass a non-empty \<open>old\<close>; with an empty one
      Python inserts \<open>new\<close> around every character, which is written out too.)\<close>
  "replace old new s =
     (if old = [] then new @ concat (map (\<lambda>c. c # new) s)
      else if s = [] then []
      else if prefix old s then new @ replace old new (drop (length old) s)
      else hd s # replace old new (tl s))"
  by pat_completeness auto
termination
  by (relation "measure (\<lambda>(old, new, s). length s)") (auto simp: neq_Nil_conv)

declare replace.simps [simp del]

fun split :: "char \<Rightarrow> string \<Rightarrow> string list" where
  \<comment> \<open>\<open>s.split(sep)\<close> for a one-character separator: never returns the empty list.\<close>
  "split sep [] = [[]]"
| "split sep (c # cs) =
     (if c = sep then [] # split sep cs
      else (case split sep cs of
              [] \<Rightarrow> [[c]]
            | l # ls \<Rightarrow> (c # l) # ls))"

section \<open>The response parser\<close>

text \<open>
  \<open>parse_llm_response_enhanced\<close> returns a dict with the three keys below. The same
  shape is returned by \<open>analyze_keyword_with_llm\<close>.
\<close>

record analysis =
  future_trend :: string
  insights :: "string list"
  recommendations :: "string list"

text \<open>The variable \<open>current_section\<close>: \<open>None\<close>, "trend", "insights", "recommendations".\<close>

datatype current_section = NoSection | Trend | Insights | Recommendations

text \<open>The loop variables of the parser.\<close>

record parse_state =
  ps_trend :: string
  ps_insights :: "string list"
  ps_recs :: "string list"
  ps_section :: current_section

definition init_state :: parse_state where
  "init_state = \<lparr>ps_trend = [], ps_insights = [], ps_recs = [], ps_section = NoSection\<rparr>"

definition clean_text :: "string \<Rightarrow> string" where
  \<comment> \<open>\<open>response_text.replace('**', '').replace('*', '')\<close>\<close>
  "clean_text t = replace ''*'' [] (replace ''**'' [] t)"

definition clean_lines :: "string \<Rightarrow> string list" where
  \<comment> \<open>\<open>[line.strip() for line in response_text.split('\n') if line.strip()]\<close>\<close>
  "clean_lines t = map strip (filter (\<lambda>l. strip l \<noteq> []) (split (CHR 0x0A) t))"

definition other_header_word :: "string \<Rightarrow> bool" where
  \<comment> \<open>\<open>any(keyword in line_lower for keyword in ['insight', 'recommendation'])\<close>\<close>
  "other_header_word ll = (contains ''insight'' ll \<or> contains ''recommendation'' ll)"

definition step :: "parse_state \<Rightarrow> string \<Rightarrow> parse_state" where
  \<comment> \<open>One iteration of \<open>for line in lines\<close>.\<close>
  "step st line =
    (let line_lower = lower line in
     if contains ''future trend'' line_lower then st\<lparr>ps_section := Trend\<rparr>
     else if contains ''key insight'' line_lower \<or> contains ''insights:'' line_lower
       then st\<lparr>ps_section := Insights\<rparr>
     else if contains ''recommend'' line_lower then st\<lparr>ps_section := Recommendations\<rparr>
     else if ps_section st = Trend \<and> ps_trend st = [] then
       (if length line > 15 \<and> \<not> startswith line ''-''
        then st\<lparr>ps_trend := strip line\<rparr> else st)
     else if ps_section st = Insights then
       (if startswith line ''-'' then
          (let clean_insight = strip (tl line) in
           if clean_insight \<noteq> [] \<and> length clean_insight > 10
           then st\<lparr>ps_insights := ps_insights st @ [clean_insight]\<rparr> else st)
        else if length line > 15 \<and> length (ps_insights st) < 3
                \<and> \<not> other_header_word line_lower
          then st\<lparr>ps_insights := ps_insights st @ [strip line]\<rparr>
        else st)
     else if ps_section st = Recommendations then
       (if startswith line ''-'' then
          (let clean_rec = strip (tl line) in
           if clean_rec \<noteq> [] \<and> length clean_rec > 10
           then st\<lparr>ps_recs := ps_recs st @ [clean_rec]\<rparr> else st)
        else if length line > 15 \<and> length (ps_recs st) < 3
                \<and> \<not> other_header_word line_lower
          then st\<lparr>ps_recs := ps_recs st @ [strip line]\<rparr>
        else st)
     else st)"

fun scan :: "parse_state \<Rightarrow> string list \<Rightarrow> parse_state" where
  \<comment> \<open>The loop \<open>for line in lines\<close>, from a given state.\<close>
  "scan st [] = st"
| "scan st (line # lines) = scan (step st line) lines"

definition canned_trend :: "string \<Rightarrow> string" where
  \<comment> \<open>The substitute sentence, chosen by a phase word in the cleaned response.\<close>
  "canned_trend t =
    (if contains ''peaking'' (lower t) then
       ''This keyword is approaching market saturation and may see declining momentum in the coming months''
     else if contains ''growing'' (lower t) then
       ''Strong upward trajectory suggests continued growth and increased market interest over the next quarter''
     else if contains ''emerging'' (lower t) then
       ''Early-stage trend with potential for significant growth as market awareness increases''
     else if contains ''decaying'' (lower t) then
       ''Downward trend indicates declining market interest and reduced content engagement''
     else
       ''Market dynamics suggest evolving consumer interest patterns requiring strategic monitoring'')"

definition default_insights :: "string list" where
  "default_insights =
    [''Current engagement metrics indicate measurable audience interaction levels'',
     ''Velocity patterns reveal important momentum shifts in market attention'',
     ''Category positioning demonstrates competitive landscape opportunities'']"

definition default_recommendations :: "string list" where
  "default_recommendations =
    [''Implement weekly monitoring of mention patterns and engagement rates'',
     ''Develop targeted content strategies aligned with current trend phase'',
     ''Analyze competitor activities within this keyword category'']"

definition top_up :: "string list \<Rightarrow> string list \<Rightarrow> string list" where
  \<comment> \<open>\<open>if len(xs) < 2: xs.extend(defaults[:3-len(xs)])\<close>\<close>
  "top_up xs defaults = (if length xs < 2 then xs @ take (3 - length xs) defaults else xs)"

definition finish :: "string \<Rightarrow> parse_state \<Rightarrow> analysis" where
  \<comment> \<open>The quality checks after the loop and the returned dict; \<open>t\<close> is the cleaned text.\<close>
  "finish t st =
    (let ft = (if ps_trend st = []
                  \<or> contains ''based on current metrics, expect continued trend evolution''
                       (lower (ps_trend st))
               then canned_trend t else ps_trend st)
     in \<lparr>future_trend = strip ft,
         insights = take 3 (top_up (ps_insights st) default_insights),
         recommendations = take 3 (top_up (ps_recs st) default_recommendations)\<rparr>)"

definition parse_failure_fallback :: analysis where
  \<comment> \<open>The dict returned by the \<open>except\<close> branch of the parser.\<close>
  "parse_failure_fallback =
    \<lparr>future_trend = ''Market analysis suggests dynamic trend patterns requiring continued observation'',
     insights =
       [''Data indicates active engagement within target audience segments'',
        ''Velocity measurements show significant momentum characteristics'',
        ''Category metrics reveal competitive positioning opportunities''],
     recommendations =
       [''Establish systematic monitoring protocols for trend detection'',
        ''Develop adaptive content strategies based on engagement feedback'',
        ''Monitor competitive landscape for strategic positioning opportunities'']\<rparr>"

text \<open>
  The parser's argument is \<open>response.content\<close> of the LLM client: a \<open>str\<close>, or some other
  value (the client may return a list of content blocks), on which the first
  \<open>.replace\<close> raises and the \<open>except\<close> branch answers.
\<close>

datatype content = Text string | NotText

fun parse_llm_response_enhanced :: "content \<Rightarrow> analysis" where
  "parse_llm_response_enhanced (Text response_text) =
     (let t = clean_text response_text in finish t (scan init_state (clean_lines t)))"
| "parse_llm_response_enhanced NotText = parse_failure_fallback"







fun join :: "string \<Rightarrow> string list \<Rightarrow> string" where
  \<comment> \<open>\<open>sep.join(ls)\<close>, to describe input texts line by line.\<close>
  "join sep [] = []"
| "join sep [l] = l"
| "join sep (l # ls) = l @ sep @ join sep ls"

section \<open>The narrative generator\<close>

text \<open>Exceptions that the modelled code can raise; all are caught by the caller.\<close>

datatype exn =
    ValueError      \<comment> \<open>sklearn on an empty array, \<open>np.argmax\<close> of an empty sequence\<close>
  | AttributeError  \<comment> \<open>\<open>.strip()\<close> on a value that is no \<open>str\<close>\<close>
  | TypeError       \<comment> \<open>\<open>in\<close> or \<open>[...]\<close> on a value that does not support it\<close>
  | KeyError        \<comment> \<open>\<open>d[k]\<close> for a key that \<open>d\<close> does not have\<close>
  | IndexError      \<comment> \<open>list index out of range\<close>
  | ParserError     \<comment> \<open>\<open>pd.read_csv\<close> on a file that is no table (a zero-byte file:
                        \<open>EmptyDataError\<close>)\<close>
  | HTTPException   \<comment> \<open>\<open>request.get_json()\<close> on a body that is no JSON\<close>
  | ServiceError    \<comment> \<open>anything raised by \<open>llm.invoke\<close>\<close>

text \<open>
  The prompt is a fixed text with six interpolated values; the LLM client is an external
  collaborator, so its answer is a function of those six values: the content of the
  response, or an exception.
\<close>

record prompt =
  p_keyword :: string
  p_category :: string
  p_matched_keyword :: string
  p_phase :: string
  p_velocity :: string
  p_engagement_rate :: string

type_synonym llm_client = "prompt \<Rightarrow> exn + content"

definition service_unavailable_fallback :: analysis where
  \<comment> \<open>Returned under \<open>if not llm\<close>.\<close>
  "service_unavailable_fallback =
    \<lparr>future_trend = ''AI analysis temporarily unavailable'',
     insights = [''Manual trend analysis required'', ''Data shows current engagement patterns''],
     recommendations = [''Monitor velocity changes'', ''Track engagement trends'']\<rparr>"

definition service_failed_fallback :: analysis where
  \<comment> \<open>Returned by the \<open>except\<close> branch around the invocation.\<close>
  "service_failed_fallback =
    \<lparr>future_trend = ''Trend analysis indicates potential market evolution based on current metrics'',
     insights =
       [''Current engagement levels suggest active audience interest'',
        ''Velocity patterns indicate momentum changes in market attention'',
        ''Category positioning shows competitive landscape dynamics''],
     recommendations =
       [''Monitor weekly mention patterns for early trend detection'',
        ''Track competitor engagement strategies in this category'',
        ''Adjust content strategy based on audience engagement feedback'']\<rparr>"

definition analyze_keyword_with_llm ::
  "llm_client option \<Rightarrow> (nat \<Rightarrow> real \<Rightarrow> string) \<Rightarrow> string \<Rightarrow> string \<Rightarrow> string \<Rightarrow> real \<Rightarrow> real
     \<Rightarrow> string \<Rightarrow> analysis" where
  \<comment> \<open>\<open>llm\<close> is the global client (\<open>None\<close> when its construction failed at startup);
      \<open>fmt n x\<close> is Python's \<open>format(x, '.nf')\<close>.\<close>
  "analyze_keyword_with_llm llm fmt keyword category phase velocity engagement_rate matched_keyword =
    (case llm of
       None \<Rightarrow> service_unavailable_fallback
     | Some invoke \<Rightarrow>
        (case invoke \<lparr>p_keyword = keyword,
                      p_category = replace ''_'' '' '' category,
                      p_matched_keyword = matched_keyword,
                      p_phase = phase,
                      p_velocity = fmt 1 velocity,
                      p_engagement_rate = fmt 4 engagement_rate\<rparr> of
           Inl e \<Rightarrow> service_failed_fallback
         | Inr response_content \<Rightarrow> parse_llm_response_enhanced response_content))"

definition get_phase_description :: "string \<Rightarrow> string" where
  "get_phase_description phase =
    (if phase = ''Emerging'' then ''This keyword is in its early adoption phase with growing interest.''
     else if phase = ''Growing'' then ''This keyword is gaining momentum and popularity rapidly.''
     else if phase = ''Peaking'' then ''This keyword has reached its peak popularity and is widely discussed.''
     else if phase = ''Decaying'' then ''This keyword is declining in popularity and mentions.''
     else if phase = ''Stable'' then ''This keyword maintains consistent engagement over time.''
     else ''This keyword is in the '' @ phase @ '' phase.'')"

section \<open>The matching endpoint\<close>

text \<open>
  Similarities are exact reals here. The embedding model and sklearn's
  \<open>cosine_similarity\<close> are external: \<open>encode\<close> gives the vector of a text and
  \<open>similarity q v\<close> the entry that \<open>cosine_similarity\<close> computes for the query \<open>q\<close>
  and one row \<open>v\<close>. sklearn rejects an array without rows with a \<open>ValueError\<close>.
\<close>

definition cosine_similarity :: "('v \<Rightarrow> 'v \<Rightarrow> real) \<Rightarrow> 'v \<Rightarrow> 'v list \<Rightarrow> exn + real list" where
  \<comment> \<open>\<open>cosine_similarity(user_embedding, Y)[0]\<close>\<close>
  "cosine_similarity sim q Y = (if Y = [] then Inl ValueError else Inr (map (sim q) Y))"

fun argmax_from :: "real \<Rightarrow> nat \<Rightarrow> nat \<Rightarrow> real list \<Rightarrow> nat" where
  \<comment> \<open>The scan of \<open>np.argmax\<close>: the best value so far and its index are replaced only by
      a strictly greater value, so the first occurrence of the maximum is returned.\<close>
  "argmax_from best best_idx i [] = best_idx"
| "argmax_from best best_idx i (x # xs) =
     (if best < x then argmax_from x i (Suc i) xs else argmax_from best best_idx (Suc i) xs)"

definition argmax :: "real list \<Rightarrow> exn + nat" where
  \<comment> \<open>\<open>np.argmax(xs)\<close>; an empty sequence raises.\<close>
  "argmax xs = (case xs of [] \<Rightarrow> Inl ValueError | x # rest \<Rightarrow> Inr (argmax_from x 0 1 rest))"

definition first_argmax :: "real list \<Rightarrow> nat \<Rightarrow> bool" where
  \<comment> \<open>\<open>i\<close> is the lowest index at which \<open>xs\<close> takes its greatest value.\<close>
  "first_argmax xs i =
     (i < length xs \<and> (\<forall>k < length xs. xs ! k \<le> xs ! i) \<and> (\<forall>k < i. xs ! k < xs ! i))"

record row =
  keyword :: string
  phase :: string
  velocity :: real
  engagement_rate :: real

text \<open>
  What \<open>pd.read_csv\<close> makes of an existing file: an exception when the file holds no
  table (a zero-byte file is one: pandas finds no columns to parse), or a table of rows
  (none, when the file has a header line only).
\<close>

datatype csv_file = Unreadable | Table "row list"

text \<open>
  The request body. \<open>request.get_json()\<close> raises on a body that is no JSON, and
  returns the parsed value otherwise: \<open>None\<close>, a bool, a number, a string, a list, or a
  dict, given by its items (the keys are distinct).
\<close>

datatype json =
    JNull
  | JBool bool
  | JNum real
  | JStr string
  | JList "json list"
  | JObj "(string \<times> json) list"

datatype request_body = NotJson | Json json

fun truthy :: "json \<Rightarrow> bool" where
  \<comment> \<open>Python's truth value, as \<open>not data\<close> tests it.\<close>
  "truthy JNull = False"
| "truthy (JBool b) = b"
| "truthy (JNum x) = (x \<noteq> 0)"
| "truthy (JStr s) = (s \<noteq> [])"
| "truthy (JList xs) = (xs \<noteq> [])"
| "truthy (JObj kvs) = (kvs \<noteq> [])"

fun keyword_in :: "json \<Rightarrow> exn + bool" where
  \<comment> \<open>\<open>'keyword' in data\<close>: a key of a dict, an element of a list, a substring of a
      string; other values are not iterable.\<close>
  "keyword_in (JObj kvs) = Inr (map_of kvs ''keyword'' \<noteq> None)"
| "keyword_in (JList xs) = Inr (JStr ''keyword'' \<in> set xs)"
| "keyword_in (JStr s) = Inr (contains ''keyword'' s)"
| "keyword_in _ = Inl TypeError"

fun getitem_keyword :: "json \<Rightarrow> exn + json" where
  \<comment> \<open>\<open>data['keyword']\<close>: only a dict can be indexed by a string.\<close>
  "getitem_keyword (JObj kvs) =
     (case map_of kvs ''keyword'' of None \<Rightarrow> Inl KeyError | Some v \<Rightarrow> Inr v)"
| "getitem_keyword _ = Inl TypeError"

fun strip_method :: "json \<Rightarrow> exn + string" where
  \<comment> \<open>\<open>v.strip()\<close>: only a string has the method.\<close>
  "strip_method (JStr s) = Inr (strip s)"
| "strip_method _ = Inl AttributeError"

text \<open>
  The process-wide state and collaborators that \<open>keyword_checker\<close> reads: the embedding
  model, sklearn's similarity, the two parallel lists built at startup, the files under
  \<open>third_layer_data/\<close> by path, the LLM client, and the Python built-ins
  \<open>format(x, '.nf')\<close> and \<open>round(x, 3)\<close> on floats.
\<close>

record 'v env =
  encode :: "string \<Rightarrow> 'v"
  similarity :: "'v \<Rightarrow> 'v \<Rightarrow> real"
  categories_list :: "string list"
  category_embeddings :: "'v list"
  files :: "string \<rightharpoonup> csv_file"
  llm :: "llm_client option"
  format_f :: "nat \<Rightarrow> real \<Rightarrow> string"
  round3 :: "real \<Rightarrow> real"

definition load_categories :: "(string \<Rightarrow> 'v) \<Rightarrow> string list option \<Rightarrow> string list \<times> 'v list" where
  \<comment> \<open>The argument is the \<open>category\<close> column of \<open>outputs/category.csv\<close>, or \<open>None\<close> when
      reading it raises (the file is missing, is empty, or has no such column).\<close>
  "load_categories enc file =
     (case file of None \<Rightarrow> ([], []) | Some categories \<Rightarrow> (categories, map enc categories))"

record result =
  r_user_keyword :: string
  r_matched_category :: string
  r_category_similarity :: real
  r_matched_keyword :: string
  r_keyword_similarity :: real
  r_phase :: string
  r_velocity :: real
  r_engagement_rate :: real
  r_velocity_description :: string
  r_engagement_description :: string
  r_phase_description :: string
  r_future_trend :: string
  r_insights :: "string list"
  r_recommendations :: "string list"

text \<open>
  The JSON bodies of the endpoint: \<open>{'error': msg}\<close>; the body of a missing or empty
  dataset, \<open>{'error': msg, 'category': c, 'category_similarity': s}\<close>; the body of the
  outer \<open>except\<close>, \<open>{'error': 'Internal server error: ...'}\<close>; and the result.
\<close>

datatype payload =
    Error string
  | CategoryError string string real
  | InternalServerError exn
  | Match result

type_synonym response = "payload \<times> nat"

definition csv_filename :: "string \<Rightarrow> string" where
  "csv_filename best_category = ''third_layer_data/'' @ best_category @ ''_keyword_trend_phases.csv''"

definition match_keyword :: "'v env \<Rightarrow> string \<Rightarrow> 'v \<Rightarrow> string \<Rightarrow> real \<Rightarrow> row list \<Rightarrow> exn + response" where
  \<comment> \<open>Step 3 of \<open>keyword_checker\<close> and the construction of the result, for a table with
      rows.\<close>
  "match_keyword env user_keyword user_embedding best_category category_similarity keyword_df =
    (let category_keywords = map keyword keyword_df;
         category_keyword_embeddings = map (encode env) category_keywords
     in case cosine_similarity (similarity env) user_embedding category_keyword_embeddings of
          Inl e \<Rightarrow> Inl e
        | Inr keyword_similarities \<Rightarrow>
       (case argmax keyword_similarities of
          Inl e \<Rightarrow> Inl e
        | Inr best_keyword_idx \<Rightarrow>
          (let best_keyword_match = category_keywords ! best_keyword_idx;
               keyword_similarity = keyword_similarities ! best_keyword_idx;
               keyword_data = keyword_df ! best_keyword_idx;
               llm_analysis = analyze_keyword_with_llm (llm env) (format_f env) user_keyword
                  best_category (phase keyword_data) (velocity keyword_data)
                  (engagement_rate keyword_data) best_keyword_match
           in Inr (Match
                \<lparr>r_user_keyword = user_keyword,
                 r_matched_category = best_category,
                 r_category_similarity = round3 env category_similarity,
                 r_matched_keyword = best_keyword_match,
                 r_keyword_similarity = round3 env keyword_similarity,
                 r_phase = phase keyword_data,
                 r_velocity = velocity keyword_data,
                 r_engagement_rate = engagement_rate keyword_data,
                 r_velocity_description =
                   format_f env 1 (velocity keyword_data) @ '' mentions per month (past 3 months)'',
                 r_engagement_description =
                   ''Popularity score: '' @ format_f env 3 (engagement_rate keyword_data),
                 r_phase_description = get_phase_description (phase keyword_data),
                 r_future_trend = future_trend llm_analysis,
                 r_insights = insights llm_analysis,
                 r_recommendations = recommendations llm_analysis\<rparr>, 200))))"

definition match_category :: "'v env \<Rightarrow> string \<Rightarrow> exn + response" where
  \<comment> \<open>Steps 1 and 2 of \<open>keyword_checker\<close>, for the trimmed keyword when it is not
      empty.\<close>
  "match_category env user_keyword =
    (let user_embedding = encode env user_keyword in
     case cosine_similarity (similarity env) user_embedding (category_embeddings env) of
       Inl e \<Rightarrow> Inl e
     | Inr similarities \<Rightarrow>
      (case argmax similarities of
         Inl e \<Rightarrow> Inl e
       | Inr best_category_idx \<Rightarrow>
         if length (categories_list env) \<le> best_category_idx then Inl IndexError
         else
          (let best_category = categories_list env ! best_category_idx;
               category_similarity = similarities ! best_category_idx
           in case files env (csv_filename best_category) of
                None \<Rightarrow>
                  Inr (CategoryError (''Data file not found for category: '' @ best_category)
                         best_category category_similarity, 404)
              | Some Unreadable \<Rightarrow> Inl ParserError
              | Some (Table keyword_df) \<Rightarrow>
                  if keyword_df = [] then
                    Inr (CategoryError
                           (''No keyword data found for category: '' @ best_category)
                           best_category category_similarity, 404)
                  else match_keyword env user_keyword user_embedding best_category
                         category_similarity keyword_df)))"

definition keyword_checker_try :: "'v env \<Rightarrow> request_body \<Rightarrow> exn + response" where
  \<comment> \<open>The body of the \<open>try\<close> block: \<open>Inl\<close> is an exception on its way to the handler.\<close>
  "keyword_checker_try env request =
    (case request of
       NotJson \<Rightarrow> Inl HTTPException
     | Json data \<Rightarrow>
        if \<not> truthy data then Inr (Error ''Keyword is required'', 400)
        else
         (case keyword_in data of
            Inl e \<Rightarrow> Inl e
          | Inr False \<Rightarrow> Inr (Error ''Keyword is required'', 400)
          | Inr True \<Rightarrow>
            (case getitem_keyword data of
               Inl e \<Rightarrow> Inl e
             | Inr v \<Rightarrow>
               (case strip_method v of
                  Inl e \<Rightarrow> Inl e
                | Inr user_keyword \<Rightarrow>
                    if user_keyword = [] then Inr (Error ''Keyword cannot be empty'', 400)
                    else match_category env user_keyword))))"

definition keyword_checker :: "'v env \<Rightarrow> request_body \<Rightarrow> response" where
  \<comment> \<open>\<open>try\<close> \<dots> \<open>except Exception as e\<close>: every exception becomes a 500 response.\<close>
  "keyword_checker env request =
    (case keyword_checker_try env request of
       Inl e \<Rightarrow> (InternalServerError e, 500)
     | Inr resp \<Rightarrow> resp)"

section \<open>The reporting endpoints\<close>

text \<open>
  The entries of \<open>keyword_trends\<close> are JSON objects read with \<open>.get\<close>; an absent key
  is \<open>None\<close> here and takes the default of the call. Numbers are exact reals and
  \<open>fmt n x\<close> is Python's \<open>format(x, '.nf')\<close>. Python adds and divides in floating
  point, so a sum or an average of the model is that of the code only where the float
  arithmetic is exact, as it is on the figures 0 and -3 used below. Only the fields that
  carry a growth figure, and those computed with it, are modelled.
\<close>

record keyword_info =
  ki_keyword :: "string option"
  ki_growth_rate :: "real option"
  ki_trend :: "string option"

record trend_category =
  tc_category :: "string option"
  tc_keywords :: "keyword_info list"

definition growth_rate_of :: "keyword_info \<Rightarrow> real" where
  \<comment> \<open>\<open>kw.get('growth_rate', 0)\<close>\<close>
  "growth_rate_of kw = (case ki_growth_rate kw of None \<Rightarrow> 0 | Some g \<Rightarrow> g)"

definition average_growth :: "keyword_info list \<Rightarrow> real" where
  \<comment> \<open>\<open>sum(kw.get('growth_rate', 0) for kw in keywords) / len(keywords)\<close>, for a
      non-empty list.\<close>
  "average_growth keywords = sum_list (map growth_rate_of keywords) / real (length keywords)"

fun find_category_keywords :: "trend_category list \<Rightarrow> string \<Rightarrow> keyword_info list" where
  \<comment> \<open>The inner loop of \<open>get_category_breakdown\<close>: the keywords of the first entry with
      that category name, \<open>[]\<close> when there is none.\<close>
  "find_category_keywords [] category_name = []"
| "find_category_keywords (trend_category # rest) category_name =
     (if tc_category trend_category = Some category_name then tc_keywords trend_category
      else find_category_keywords rest category_name)"

record breakdown_entry =
  bd_name :: string
  bd_count :: nat
  bd_growth :: string
  bd_trend :: string

definition category_breakdown_entry ::
  "(nat \<Rightarrow> real \<Rightarrow> string) \<Rightarrow> trend_category list \<Rightarrow> string \<Rightarrow> breakdown_entry" where
  \<comment> \<open>One iteration of the outer loop of \<open>get_category_breakdown\<close>.\<close>
  "category_breakdown_entry fmt keyword_trends category_name =
    (let category_keywords = find_category_keywords keyword_trends category_name;
         growth_rate = (if category_keywords \<noteq> [] then average_growth category_keywords else 0)
     in \<lparr>bd_name = category_name,
         bd_count = length category_keywords,
         bd_growth = (if growth_rate > 0 then ''+'' @ fmt 1 growth_rate @ ''%''
                      else fmt 1 growth_rate @ ''%''),
         bd_trend = (if growth_rate > 0 then ''up'' else ''down'')\<rparr>)"

definition change_str :: "(nat \<Rightarrow> real \<Rightarrow> string) \<Rightarrow> real \<Rightarrow> string" where
  \<comment> \<open>\<open>change_str\<close> and \<open>growth_str\<close> of \<open>get_trend_analysis\<close>.\<close>
  "change_str fmt avg_growth =
     (if avg_growth \<ge> 0 then ''+'' @ fmt 1 avg_growth @ ''%'' else fmt 1 avg_growth @ ''%'')"

record trend_summary =
  ts_categories_trending_up_percentage :: string
  ts_highest_growth :: string
  ts_hot_keywords_count :: nat
  ts_avg_category_growth :: string

definition get_trend_summary ::
  "(nat \<Rightarrow> real \<Rightarrow> string) \<Rightarrow> trend_category list \<Rightarrow> exn + trend_summary" where
  \<comment> \<open>\<open>max\<close> of no growth rate at all raises; the endpoint has no handler.\<close>
  "get_trend_summary fmt keyword_trends =
    (let total_categories = length keyword_trends;
         with_keywords = filter (\<lambda>c. tc_keywords c \<noteq> []) keyword_trends;
         all_growth_rates = map (\<lambda>c. average_growth (tc_keywords c)) with_keywords;
         categories_trending_up = length (filter (\<lambda>g. g > 2) all_growth_rates);
         hot_keywords_count =
           length (filter (\<lambda>kw. growth_rate_of kw > 10) (concat (map tc_keywords with_keywords)));
         rates = map growth_rate_of (concat (map tc_keywords keyword_trends))
     in case rates of
          [] \<Rightarrow> Inl ValueError
        | g # gs \<Rightarrow>
          (let highest_growth = fold max gs g;
               avg_category_growth =
                 (if all_growth_rates \<noteq> []
                  then sum_list all_growth_rates / real (length all_growth_rates) else 0);
               percentage_trending_up =
                 (if total_categories > 0
                  then real categories_trending_up / real total_categories * 100 else 0)
           in Inr \<lparr>ts_categories_trending_up_percentage = fmt 0 percentage_trending_up @ ''%'',
                   ts_highest_growth = ''+'' @ fmt 1 highest_growth @ ''%'',
                   ts_hot_keywords_count = hot_keywords_count,
                   ts_avg_category_growth = ''+'' @ fmt 1 avg_category_growth @ ''%''\<rparr>))"

section \<open>A small corpus for concrete runs\<close>

text \<open>
  Three categories with unit vectors, so that the cosine similarity of two of them is
  their dot product; the first and the third category have the same vector, and so have
  the first and the third keyword of the dataset.
\<close>

definition example_encode :: "string \<Rightarrow> real list" where
  "example_encode s =
    (if s \<in> set [''dewy glow serum'', ''Skincare & Anti-Aging'', ''Skincare Routines'',
                  ''hyaluronic acid'', ''glow serum'']
     then [1, 0] else [0, 1])"

definition example_similarity :: "real list \<Rightarrow> real list \<Rightarrow> real" where
  "example_similarity a b = sum_list (map2 (*) a b)"

definition example_rows :: "row list" where
  "example_rows =
    [\<lparr>keyword = ''hyaluronic acid'', phase = ''Growing'', velocity = 12.3, engagement_rate = 0.045\<rparr>,
     \<lparr>keyword = ''matte lipstick'', phase = ''Peaking'', velocity = - 2, engagement_rate = 0.03\<rparr>,
     \<lparr>keyword = ''glow serum'', phase = ''Emerging'', velocity = 4, engagement_rate = 0.01\<rparr>]"

definition example_env :: "(string \<rightharpoonup> csv_file) \<Rightarrow> real list env" where
  \<comment> \<open>The corpus over a given file system, without an LLM client.\<close>
  "example_env fs =
    \<lparr>encode = example_encode,
     similarity = example_similarity,
     categories_list = [''Skincare & Anti-Aging'', ''Makeup & Cosmetics'', ''Skincare Routines''],
     category_embeddings = [[1, 0], [0, 1], [1, 0]],
     files = fs,
     llm = None,
     format_f = (\<lambda>n x. if x = 12.3 then ''12.3'' else if x = 0.045 then ''0.045'' else ''0.0''),
     round3 = (\<lambda>x. x)\<rparr>"

definition example_request :: "string \<Rightarrow> request_body" where
  \<comment> \<open>The JSON body \<open>{"keyword": kw}\<close>.\<close>
  "example_request kw = Json (JObj [(''keyword'', JStr kw)])"

definition example_empty_env :: "string list option \<Rightarrow> real list env" where
  \<comment> \<open>The same collaborators after a startup that read the given category file.\<close>
  "example_empty_env file =
    (example_env Map.empty)
      \<lparr>categories_list := fst (load_categories example_encode file),
       category_embeddings := snd (load_categories example_encode file)\<rparr>"

definition example_negative_trends :: "trend_category list" where
  \<comment> \<open>\<open>keyword_trends\<close> with one category whose only keyword loses 3 percent.\<close>
  "example_negative_trends =
    [\<lparr>tc_category = Some ''Makeup & Cosmetics'',
      tc_keywords = [\<lparr>ki_keyword = Some ''matte lipstick'', ki_growth_rate = Some (- 3),
                      ki_trend = Some ''down''\<rparr>]\<rparr>]"









definition example_two_insights_text :: string where
  "example_two_insights_text = join [CHR 0x0A]
    [''KEY INSIGHTS:'', ''- Sales grew fast'', ''- Videos lead reach'']"

section \<open>Properties of the parser\<close>

lemma parse_Text:
  "parse_llm_response_enhanced (Text t) =
     finish (clean_text t) (scan init_state (clean_lines (clean_text t)))"
  by (simp add: Let_def)

lemma insights_finish:
  "insights (finish t st) = take 3 (top_up (ps_insights st) default_insights)"
  by (simp add: finish_def Let_def)

lemma recommendations_finish:
  "recommendations (finish t st) = take 3 (top_up (ps_recs st) default_recommendations)"
  by (simp add: finish_def Let_def)

lemma length_default_insights: "length default_insights = 3"
  by (simp add: default_insights_def)

lemma length_default_recommendations: "length default_recommendations = 3"
  by (simp add: default_recommendations_def)

lemma take3_top_up:
  "length ds = 3 \<Longrightarrow> take 3 (top_up xs ds) =
     (if length xs < 2 then xs @ take (3 - length xs) ds else take 3 xs)"
  by (auto simp: top_up_def)











text \<open>Texts given line by line: what the preprocessing makes of them.\<close>

lemma replace_absent:
  "old \<noteq> [] \<Longrightarrow> hd old \<notin> set s \<Longrightarrow> replace old new s = s"
proof (induction s)
  case Nil
  then show ?case by (simp add: replace.simps)
next
  case (Cons x xs)
  then have np: "\<not> prefix old (x # xs)"
    by (cases old) (auto simp: prefix_def)
  from Cons have "replace old new xs = xs" by simp
  with np Cons.prems show ?case
    by (subst replace.simps) simp
qed

lemma clean_text_no_star: "CHR ''*'' \<notin> set t \<Longrightarrow> clean_text t = t"
  by (simp add: clean_text_def replace_absent)

lemma split_no_sep: "sep \<notin> set l \<Longrightarrow> split sep l = [l]"
  by (induction l) auto

lemma split_append_sep: "sep \<notin> set l \<Longrightarrow> split sep (l @ sep # rest) = l # split sep rest"
  by (induction l) auto

lemma split_join:
  "ls \<noteq> [] \<Longrightarrow> \<forall>l \<in> set ls. sep \<notin> set l \<Longrightarrow> split sep (join [sep] ls) = ls"
  by (induction "[sep]" ls rule: join.induct) (auto simp: split_no_sep split_append_sep)

lemma set_join: "set (join sep ls) \<subseteq> set sep \<union> \<Union> (set ` set ls)"
  by (induction sep ls rule: join.induct) auto

lemma clean_lines_join:
  assumes "\<forall>l \<in> set ls. CHR 0x0A \<notin> set l \<and> CHR ''*'' \<notin> set l"
  shows "clean_lines (clean_text (join [CHR 0x0A] ls)) = map strip (filter (\<lambda>l. strip l \<noteq> []) ls)"
proof -
  have "CHR ''*'' \<notin> set (join [CHR 0x0A] ls)"
    using assms set_join[of "[CHR 0x0A]" ls] by auto
  then have ct: "clean_text (join [CHR 0x0A] ls) = join [CHR 0x0A] ls"
    by (rule clean_text_no_star)
  show ?thesis
  proof (cases "ls = []")
    case True
    with ct have "clean_text [] = []" by simp
    with True show ?thesis by (simp add: clean_lines_def strip_def)
  next
    case False
    with assms have "split (CHR 0x0A) (join [CHR 0x0A] ls) = ls"
      by (intro split_join) auto
    then show ?thesis by (simp add: ct clean_lines_def)
  qed
qed

text \<open>
  The character functions on the characters of the example texts, as rewrite rules, and
  \<open>strip\<close> on lines that need no trimming.
\<close>

lemma lower_char_upper:
  "map lower_char ''ABCDEFGHIJKLMNOPQRSTUVWXYZ'' = ''abcdefghijklmnopqrstuvwxyz''"
  by (simp add: lower_char_def char_of_def bit_0)

lemma lower_char_other:
  "map lower_char ''abcdefghijklmnopqrstuvwxyz0123456789 -:.,&''
     = ''abcdefghijklmnopqrstuvwxyz0123456789 -:.,&''"
  by (simp add: lower_char_def)

lemma isspace_other:
  "\<forall>c \<in> set ''ABCDEFGHIJKLMNOPQRSTUVWXYZabcdefghijklmnopqrstuvwxyz0123456789-:.,&''.
     \<not> isspace c"
  by (simp add: isspace_def)

lemma isspace_space: "isspace CHR '' ''" "isspace (CHR 0x0A)" "isspace (CHR 0x09)"
  by (simp_all add: isspace_def)

lemmas lower_char_simps = lower_char_upper [simplified] lower_char_other [simplified]

lemmas isspace_simps = isspace_other [simplified] isspace_space

lemma strip_id:
  assumes "l \<noteq> []" "\<not> isspace (hd l)" "\<not> isspace (last l)"
  shows "strip l = l"
proof -
  from assms have a: "dropWhile isspace l = l"
    by (cases l) auto
  from assms have "rev l \<noteq> []" "\<not> isspace (hd (rev l))"
    by (simp_all add: hd_rev)
  then have "dropWhile isspace (rev l) = rev l"
    by (cases "rev l") auto
  with a show ?thesis by (simp add: strip_def)
qed

lemma strip_space: "isspace c \<Longrightarrow> strip (c # s) = strip s"
  by (simp add: strip_def)

lemmas str_eval = lower_def lower_char_simps isspace_simps startswith_def strip_space strip_id

lemma clean_lines_join_trimmed:
  assumes "\<forall>l \<in> set ls. CHR 0x0A \<notin> set l \<and> CHR ''*'' \<notin> set l
             \<and> l \<noteq> [] \<and> \<not> isspace (hd l) \<and> \<not> isspace (last l)"
  shows "clean_lines (clean_text (join [CHR 0x0A] ls)) = ls"
proof -
  from assms have s: "\<forall>l \<in> set ls. strip l = l \<and> strip l \<noteq> []"
    by (auto simp: strip_id)
  then have "filter (\<lambda>l. strip l \<noteq> []) ls = ls"
    unfolding filter_id_conv by blast
  moreover from s have "map strip ls = ls"
    by (simp add: map_idI)
  ultimately show ?thesis using assms by (simp add: clean_lines_join)
qed






lemma lines_two_insights:
  "clean_lines (clean_text example_two_insights_text)
     = [''KEY INSIGHTS:'', ''- Sales grew fast'', ''- Videos lead reach'']"
  unfolding example_two_insights_text_def
  by (rule clean_lines_join_trimmed) (simp add: isspace_simps)




text \<open>
  C6. The parser applied to the empty string returns a non-empty trend sentence (the
  generic canned one), exactly 3 insights and exactly 3 recommendations, all of them the
  canned top-up items.
\<close>

theorem parse_empty_string:
  "parse_llm_response_enhanced (Text '''') =
     \<lparr>future_trend = ''Market dynamics suggest evolving consumer interest patterns requiring strategic monitoring'',
      insights = default_insights,
      recommendations = default_recommendations\<rparr>
   \<and> future_trend (parse_llm_response_enhanced (Text '''')) \<noteq> ''''
   \<and> length (insights (parse_llm_response_enhanced (Text ''''))) = 3
   \<and> length (recommendations (parse_llm_response_enhanced (Text ''''))) = 3"
  by code_simp







text \<open>
  C10. What the loop has captured when it ends is \<open>scan init_state\<close> of the lines. When
  it holds exactly 2 insights, exactly those 2 are returned, and likewise for the
  recommendations: canned items are appended only when fewer than 2 were captured, and
  then up to three.
\<close>

theorem parse_two_captured:
  "(length (ps_insights (scan init_state (clean_lines (clean_text text)))) = 2 \<longrightarrow>
      insights (parse_llm_response_enhanced (Text text))
        = ps_insights (scan init_state (clean_lines (clean_text text)))
      \<and> length (insights (parse_llm_response_enhanced (Text text))) = 2)
   \<and> (length (ps_recs (scan init_state (clean_lines (clean_text text)))) = 2 \<longrightarrow>
      recommendations (parse_llm_response_enhanced (Text text))
        = ps_recs (scan init_state (clean_lines (clean_text text)))
      \<and> length (recommendations (parse_llm_response_enhanced (Text text))) = 2)
   \<and> (length (ps_insights (scan init_state (clean_lines (clean_text text)))) < 2 \<longrightarrow>
      insights (parse_llm_response_enhanced (Text text))
        = ps_insights (scan init_state (clean_lines (clean_text text)))
          @ take (3 - length (ps_insights (scan init_state (clean_lines (clean_text text)))))
              default_insights)
   \<and> (length (ps_recs (scan init_state (clean_lines (clean_text text)))) < 2 \<longrightarrow>
      recommendations (parse_llm_response_enhanced (Text text))
        = ps_recs (scan init_state (clean_lines (clean_text text)))
          @ take (3 - length (ps_recs (scan init_state (clean_lines (clean_text text)))))
              default_recommendations)"
  by (simp add: Let_def insights_finish recommendations_finish take3_top_up
      length_default_insights length_default_recommendations)

theorem parse_two_captured_witness:
  "length (ps_insights (scan init_state (clean_lines (clean_text example_two_insights_text)))) = 2
   \<and> length (ps_recs (scan init_state (clean_lines (clean_text example_two_insights_text)))) < 2
   \<and> insights (parse_llm_response_enhanced (Text example_two_insights_text))
       = [''Sales grew fast'', ''Videos lead reach'']
   \<and> length (insights (parse_llm_response_enhanced (Text example_two_insights_text))) = 2
   \<and> recommendations (parse_llm_response_enhanced (Text example_two_insights_text))
       = default_recommendations"
proof -
  have st: "scan init_state (clean_lines (clean_text example_two_insights_text))
     = \<lparr>ps_trend = [], ps_insights = [''Sales grew fast'', ''Videos lead reach''],
        ps_recs = [], ps_section = Insights\<rparr>"
    unfolding lines_two_insights
    by (simp add: step_def Let_def init_state_def str_eval)
  have d: "take 3 default_recommendations = default_recommendations"
    by (simp add: default_recommendations_def)
  from parse_two_captured [of example_two_insights_text] d
  show ?thesis unfolding st by simp
qed

section \<open>Properties of the matching endpoint\<close>

text \<open>
  The scan of \<open>argmax_from\<close> keeps this invariant: \<open>best\<close> is the greatest value among
  the \<open>i\<close> elements seen, and \<open>best_idx\<close> is the first index that holds it.
\<close>

lemma argmax_from_first:
  assumes "length ys = i" "bi < i" "ys ! bi = best"
    "\<forall>k < i. ys ! k \<le> best" "\<forall>k < bi. ys ! k < best"
  shows "first_argmax (ys @ xs) (argmax_from best bi i xs)"
  using assms
proof (induction xs arbitrary: best bi i ys)
  case Nil
  then show ?case by (simp add: first_argmax_def)
next
  case (Cons x xs)
  show ?case
  proof (cases "best < x")
    case True
    have "first_argmax ((ys @ [x]) @ xs) (argmax_from x i (Suc i) xs)"
    proof (rule Cons.IH)
      show "length (ys @ [x]) = Suc i" using Cons.prems by simp
      show "i < Suc i" by simp
      show "(ys @ [x]) ! i = x" using Cons.prems by (auto simp: nth_append)
      show "\<forall>k<Suc i. (ys @ [x]) ! k \<le> x"
        using Cons.prems True by (auto simp: nth_append less_Suc_eq intro: less_imp_le order_trans)
      show "\<forall>k<i. (ys @ [x]) ! k < x"
        using Cons.prems True by (auto simp: nth_append intro: le_less_trans)
    qed
    with True show ?thesis by simp
  next
    case False
    have "first_argmax ((ys @ [x]) @ xs) (argmax_from best bi (Suc i) xs)"
    proof (rule Cons.IH)
      show "length (ys @ [x]) = Suc i" using Cons.prems by simp
      show "bi < Suc i" using Cons.prems by simp
      show "(ys @ [x]) ! bi = best" using Cons.prems by (simp add: nth_append)
      show "\<forall>k<Suc i. (ys @ [x]) ! k \<le> best"
        using Cons.prems False by (auto simp: nth_append less_Suc_eq)
      show "\<forall>k<bi. (ys @ [x]) ! k < best"
        using Cons.prems by (auto simp: nth_append)
    qed
    with False show ?thesis by simp
  qed
qed

lemma argmax_nonempty:
  assumes "xs \<noteq> []"
  shows "\<exists>i. argmax xs = Inr i \<and> first_argmax xs i"
proof -
  from assms obtain x rest where xs: "xs = x # rest" by (cases xs) auto
  have "first_argmax ([x] @ rest) (argmax_from x 0 1 rest)"
    by (rule argmax_from_first) auto
  with xs show ?thesis by (simp add: argmax_def)
qed

lemma first_argmax_unique:
  assumes "first_argmax xs i" "first_argmax xs j"
  shows "i = j"
proof (rule ccontr)
  assume "i \<noteq> j"
  then consider "i < j" | "j < i" by linarith
  then show False
  proof cases
    case 1
    with assms have "xs ! i < xs ! j" "xs ! j \<le> xs ! i" by (auto simp: first_argmax_def)
    then show False by simp
  next
    case 2
    with assms have "xs ! j < xs ! i" "xs ! i \<le> xs ! j" by (auto simp: first_argmax_def)
    then show False by simp
  qed
qed

text \<open>Step 3 on a table with rows: no exception, and the row of the first best keyword.\<close>

lemma match_keyword_result:
  assumes "keyword_df \<noteq> []"
  shows "\<exists>j r. first_argmax (map (\<lambda>row. similarity env q (encode env (keyword row))) keyword_df) j
     \<and> match_keyword env uk q best_category cs keyword_df = Inr (Match r, 200)
     \<and> r_user_keyword r = uk
     \<and> r_matched_category r = best_category
     \<and> r_category_similarity r = round3 env cs
     \<and> r_matched_keyword r = keyword (keyword_df ! j)
     \<and> r_keyword_similarity r =
         round3 env (similarity env q (encode env (keyword (keyword_df ! j))))
     \<and> r_phase r = phase (keyword_df ! j)
     \<and> r_velocity r = velocity (keyword_df ! j)
     \<and> r_engagement_rate r = engagement_rate (keyword_df ! j)"
proof -
  let ?ks = "map (\<lambda>row. similarity env q (encode env (keyword row))) keyword_df"
  from assms have "?ks \<noteq> []" by simp
  then obtain j where j: "argmax ?ks = Inr j" "first_argmax ?ks j"
    using argmax_nonempty by blast
  then have jl: "j < length keyword_df" by (simp add: first_argmax_def)
  show ?thesis
    using assms j jl
    by (intro exI[of _ j]) (simp add: match_keyword_def cosine_similarity_def Let_def comp_def)
qed

text \<open>Steps 1 and 2 for a non-blank keyword over a non-empty index.\<close>

lemma keyword_checker_try_category:
  assumes "map_of kvs ''keyword'' = Some (JStr kw)" "strip kw \<noteq> []"
    "category_embeddings env \<noteq> []"
    "length (categories_list env) = length (category_embeddings env)"
  shows "\<exists>i. first_argmax (map (similarity env (encode env (strip kw))) (category_embeddings env)) i
    \<and> keyword_checker_try env (Json (JObj kvs)) =
       (case files env (csv_filename (categories_list env ! i)) of
          None \<Rightarrow> Inr (CategoryError
                        (''Data file not found for category: '' @ categories_list env ! i)
                        (categories_list env ! i)
                        (similarity env (encode env (strip kw)) (category_embeddings env ! i)), 404)
        | Some Unreadable \<Rightarrow> Inl ParserError
        | Some (Table keyword_df) \<Rightarrow>
            if keyword_df = [] then
              Inr (CategoryError
                     (''No keyword data found for category: '' @ categories_list env ! i)
                     (categories_list env ! i)
                     (similarity env (encode env (strip kw)) (category_embeddings env ! i)), 404)
            else match_keyword env (strip kw) (encode env (strip kw)) (categories_list env ! i)
                   (similarity env (encode env (strip kw)) (category_embeddings env ! i))
                   keyword_df)"
proof -
  let ?sims = "map (similarity env (encode env (strip kw))) (category_embeddings env)"
  from assms(3) have "?sims \<noteq> []" by simp
  then obtain i where i: "argmax ?sims = Inr i" "first_argmax ?sims i"
    using argmax_nonempty by blast
  then have il: "i < length (category_embeddings env)" by (simp add: first_argmax_def)
  show ?thesis
    using assms i il
    by (intro exI[of _ i])
       (auto simp: keyword_checker_try_def match_category_def cosine_similarity_def Let_def
             split: option.split csv_file.split)
qed

text \<open>The example corpus, evaluated.\<close>

lemma example_strip: "strip ''dewy glow serum'' = ''dewy glow serum''"
  by (simp add: str_eval)

lemma example_similarities:
  "map (similarity (example_env fs) (encode (example_env fs) ''dewy glow serum''))
       (category_embeddings (example_env fs)) = [1, 0, 1]"
  by (simp add: example_env_def example_encode_def example_similarity_def)

lemma example_keyword_similarities:
  "map (\<lambda>row. similarity (example_env fs) (encode (example_env fs) ''dewy glow serum'')
          (encode (example_env fs) (keyword row))) example_rows = [1, 0, 1]"
  by (simp add: example_env_def example_encode_def example_similarity_def example_rows_def)

lemma first_argmax_example: "first_argmax [1, 0, 1] 0"
  by (simp add: first_argmax_def less_Suc_eq numeral_3_eq_3)
text \<open>
  C9. A keyword that is empty once trimmed is rejected with status 400 and the message
  "Keyword cannot be empty", whatever the corpus; so are the empty keyword and the
  keyword of three spaces.
\<close>

theorem empty_keyword_rejected:
  "(map_of kvs ''keyword'' = Some (JStr kw) \<and> strip kw = []
      \<longrightarrow> keyword_checker env (Json (JObj kvs)) = (Error ''Keyword cannot be empty'', 400))
   \<and> keyword_checker env (example_request []) = (Error ''Keyword cannot be empty'', 400)
   \<and> keyword_checker env (example_request ''   '') = (Error ''Keyword cannot be empty'', 400)"
proof -
  have s: "strip [] = []" "strip ''   '' = []"
    by (simp_all add: strip_def isspace_simps)
  show ?thesis
    by (auto simp: keyword_checker_def keyword_checker_try_def example_request_def s)
qed

theorem empty_keyword_rejected_witness:
  "map_of [(''keyword'', JStr [CHR 0x09, CHR '' '', CHR 0x0A])] ''keyword''
      = Some (JStr [CHR 0x09, CHR '' '', CHR 0x0A])
   \<and> strip [CHR 0x09, CHR '' '', CHR 0x0A] = []
   \<and> keyword_checker (example_env Map.empty)
        (Json (JObj [(''keyword'', JStr [CHR 0x09, CHR '' '', CHR 0x0A])]))
      = (Error ''Keyword cannot be empty'', 400)"
proof -
  have s: "strip [CHR 0x09, CHR '' '', CHR 0x0A] = []"
    by (simp add: strip_def isspace_simps)
  from s empty_keyword_rejected [of "[(''keyword'', JStr [CHR 0x09, CHR '' '', CHR 0x0A])]"
      "[CHR 0x09, CHR '' '', CHR 0x0A]" "example_env Map.empty"]
  show ?thesis by simp
qed

text \<open>
  C2, as stated, fails: after a startup that found no category file both lists are
  empty, and a query with a proper keyword is answered by the handler of the outer
  \<open>except\<close>: status 500 and the generic "Internal server error" body, for the
  \<open>ValueError\<close> that sklearn raises on an array without rows. The code has no report of
  its own for an empty index.
\<close>

theorem empty_index_generic_error:
  "keyword_checker (example_empty_env None) (example_request ''dewy glow serum'')
     = (InternalServerError ValueError, 500)"
  by (simp add: keyword_checker_def keyword_checker_try_def match_category_def
      example_request_def example_strip example_empty_env_def example_env_def
      load_categories_def cosine_similarity_def)

text \<open>
  C2, amended. When the category file was missing or empty at startup, every request is
  answered, with status 400 or with status 500 and the generic internal-error body, and
  never with a report of its own for the empty index:
  \<^item> a body that is no JSON: status 500;
  \<^item> a JSON value that Python takes for false (\<open>null\<close>, \<open>false\<close>, 0, an empty string,
    list or object): status 400, "Keyword is required";
  \<^item> \<open>true\<close> or a number other than 0: status 500;
  \<^item> a string or a list: status 500 when it contains "keyword", and status 400,
    "Keyword is required", when it does not;
  \<^item> an object without the key \<open>keyword\<close>: status 400, "Keyword is required";
  \<^item> an object whose keyword is no string: status 500;
  \<^item> an object whose keyword is blank: status 400, "Keyword cannot be empty";
  \<^item> an object with any other keyword: status 500, for the \<open>ValueError\<close> of the
    similarity computation.
\<close>

theorem empty_index_responses:
  assumes "file = None \<or> file = Some []"
    and "(categories_list env, category_embeddings env) = load_categories (encode env) file"
  shows "keyword_checker env request =
     (case request of
        NotJson \<Rightarrow> (InternalServerError HTTPException, 500)
      | Json data \<Rightarrow>
         if \<not> truthy data then (Error ''Keyword is required'', 400)
         else
          (case data of
             JObj kvs \<Rightarrow>
              (case map_of kvs ''keyword'' of
                 None \<Rightarrow> (Error ''Keyword is required'', 400)
               | Some (JStr kw) \<Rightarrow>
                   if strip kw = [] then (Error ''Keyword cannot be empty'', 400)
                   else (InternalServerError ValueError, 500)
               | Some v \<Rightarrow> (InternalServerError AttributeError, 500))
           | JList xs \<Rightarrow>
               if JStr ''keyword'' \<in> set xs then (InternalServerError TypeError, 500)
               else (Error ''Keyword is required'', 400)
           | JStr s \<Rightarrow>
               if contains ''keyword'' s then (InternalServerError TypeError, 500)
               else (Error ''Keyword is required'', 400)
           | other \<Rightarrow> (InternalServerError TypeError, 500)))"
proof -
  from assms have e: "category_embeddings env = []"
    by (auto simp: load_categories_def)
  have m: "match_category env uk = Inl ValueError" for uk
    by (simp add: match_category_def cosine_similarity_def e)
  show ?thesis
  proof (cases request)
    case NotJson
    then show ?thesis by (simp add: keyword_checker_def keyword_checker_try_def)
  next
    case (Json data)
    show ?thesis
    proof (cases data)
      case (JObj kvs)
      show ?thesis
      proof (cases "map_of kvs ''keyword''")
        case None
        with Json JObj show ?thesis
          by (simp add: keyword_checker_def keyword_checker_try_def)
      next
        case (Some v)
        with Json JObj show ?thesis
          by (cases v) (auto simp: keyword_checker_def keyword_checker_try_def m)
      qed
    qed (simp_all add: Json keyword_checker_def keyword_checker_try_def)
  qed
qed

theorem empty_index_responses_witness:
  "(Some [] = None \<or> Some [] = Some ([] :: string list))
   \<and> (categories_list (example_empty_env (Some [])), category_embeddings (example_empty_env (Some [])))
       = load_categories (encode (example_empty_env (Some []))) (Some [])
   \<and> keyword_checker (example_empty_env (Some [])) (example_request ''glow serum'')
       = (InternalServerError ValueError, 500)
   \<and> keyword_checker (example_empty_env (Some [])) NotJson
       = (InternalServerError HTTPException, 500)
   \<and> keyword_checker (example_empty_env (Some [])) (Json (JNum 5))
       = (InternalServerError TypeError, 500)
   \<and> keyword_checker (example_empty_env (Some [])) (Json (JList [JStr ''keyword'']))
       = (InternalServerError TypeError, 500)
   \<and> keyword_checker (example_empty_env (Some [])) (Json (JObj []))
       = (Error ''Keyword is required'', 400)"
proof -
  have a: "Some [] = None \<or> Some [] = Some ([] :: string list)" by simp
  have b: "(categories_list (example_empty_env (Some [])),
            category_embeddings (example_empty_env (Some [])))
       = load_categories (encode (example_empty_env (Some []))) (Some [])"
    by (simp add: example_empty_env_def example_env_def load_categories_def)
  have s: "strip ''glow serum'' = ''glow serum''"
    by (simp add: str_eval)
  from empty_index_responses [OF a b, of "example_request ''glow serum''"]
    empty_index_responses [OF a b, of NotJson]
    empty_index_responses [OF a b, of "Json (JNum 5)"]
    empty_index_responses [OF a b, of "Json (JList [JStr ''keyword''])"]
    empty_index_responses [OF a b, of "Json (JObj [])"]
    a b s
  show ?thesis by (simp add: example_request_def)
qed

text \<open>
  C3. For a non-blank keyword and a non-empty index (the two startup lists having the
  same length), the category of the answer is the one at the lowest index among those of
  greatest similarity to the query vector. The answer is then decided by the dataset of
  that category: the partial failure when it is missing or has no rows, status 500 when
  it cannot be read, and otherwise the result, whose keyword, similarity and trend data
  are those of the row at the lowest index among the rows of greatest similarity to the
  same query vector.
\<close>

theorem matching_selects_first_argmax:
  assumes "map_of kvs ''keyword'' = Some (JStr kw)" and "strip kw \<noteq> []"
    and "category_embeddings env \<noteq> []"
    and "length (categories_list env) = length (category_embeddings env)"
  shows "\<exists>i. first_argmax
           (map (similarity env (encode env (strip kw))) (category_embeddings env)) i
     \<and> (case files env (csv_filename (categories_list env ! i)) of
          None \<Rightarrow>
            \<exists>msg. keyword_checker env (Json (JObj kvs)) =
              (CategoryError msg (categories_list env ! i)
                 (similarity env (encode env (strip kw)) (category_embeddings env ! i)), 404)
        | Some Unreadable \<Rightarrow>
            keyword_checker env (Json (JObj kvs)) = (InternalServerError ParserError, 500)
        | Some (Table keyword_df) \<Rightarrow>
            if keyword_df = [] then
              \<exists>msg. keyword_checker env (Json (JObj kvs)) =
                (CategoryError msg (categories_list env ! i)
                   (similarity env (encode env (strip kw)) (category_embeddings env ! i)), 404)
            else
              \<exists>j r. first_argmax
                       (map (\<lambda>row. similarity env (encode env (strip kw))
                                     (encode env (keyword row))) keyword_df) j
                \<and> keyword_checker env (Json (JObj kvs)) = (Match r, 200)
                \<and> r_matched_category r = categories_list env ! i
                \<and> r_category_similarity r =
                    round3 env (similarity env (encode env (strip kw))
                                  (category_embeddings env ! i))
                \<and> r_matched_keyword r = keyword (keyword_df ! j)
                \<and> r_keyword_similarity r =
                    round3 env (similarity env (encode env (strip kw))
                                  (encode env (keyword (keyword_df ! j))))
                \<and> r_phase r = phase (keyword_df ! j)
                \<and> r_velocity r = velocity (keyword_df ! j)
                \<and> r_engagement_rate r = engagement_rate (keyword_df ! j))"
proof -
  let ?q = "encode env (strip kw)"
  from keyword_checker_try_category [of kvs kw env] assms
  obtain i where i: "first_argmax (map (similarity env ?q) (category_embeddings env)) i"
    and t: "keyword_checker_try env (Json (JObj kvs)) =
       (case files env (csv_filename (categories_list env ! i)) of
          None \<Rightarrow> Inr (CategoryError
                        (''Data file not found for category: '' @ categories_list env ! i)
                        (categories_list env ! i)
                        (similarity env ?q (category_embeddings env ! i)), 404)
        | Some Unreadable \<Rightarrow> Inl ParserError
        | Some (Table keyword_df) \<Rightarrow>
            if keyword_df = [] then
              Inr (CategoryError
                     (''No keyword data found for category: '' @ categories_list env ! i)
                     (categories_list env ! i)
                     (similarity env ?q (category_embeddings env ! i)), 404)
            else match_keyword env (strip kw) ?q (categories_list env ! i)
                   (similarity env ?q (category_embeddings env ! i)) keyword_df)"
    by blast
  have "case files env (csv_filename (categories_list env ! i)) of
          None \<Rightarrow>
            \<exists>msg. keyword_checker env (Json (JObj kvs)) =
              (CategoryError msg (categories_list env ! i)
                 (similarity env ?q (category_embeddings env ! i)), 404)
        | Some Unreadable \<Rightarrow>
            keyword_checker env (Json (JObj kvs)) = (InternalServerError ParserError, 500)
        | Some (Table keyword_df) \<Rightarrow>
            if keyword_df = [] then
              \<exists>msg. keyword_checker env (Json (JObj kvs)) =
                (CategoryError msg (categories_list env ! i)
                   (similarity env ?q (category_embeddings env ! i)), 404)
            else
              \<exists>j r. first_argmax
                       (map (\<lambda>row. similarity env ?q (encode env (keyword row))) keyword_df) j
                \<and> keyword_checker env (Json (JObj kvs)) = (Match r, 200)
                \<and> r_matched_category r = categories_list env ! i
                \<and> r_category_similarity r =
                    round3 env (similarity env ?q (category_embeddings env ! i))
                \<and> r_matched_keyword r = keyword (keyword_df ! j)
                \<and> r_keyword_similarity r =
                    round3 env (similarity env ?q (encode env (keyword (keyword_df ! j))))
                \<and> r_phase r = phase (keyword_df ! j)
                \<and> r_velocity r = velocity (keyword_df ! j)
                \<and> r_engagement_rate r = engagement_rate (keyword_df ! j)"
  proof (cases "files env (csv_filename (categories_list env ! i))")
    case None
    with t show ?thesis by (simp add: keyword_checker_def)
  next
    case (Some f)
    show ?thesis
    proof (cases f)
      case Unreadable
      with Some t show ?thesis by (simp add: keyword_checker_def)
    next
      case (Table keyword_df)
      show ?thesis
      proof (cases "keyword_df = []")
        case True
        with Some Table t show ?thesis by (simp add: keyword_checker_def)
      next
        case False
        from match_keyword_result [OF False, of env ?q "strip kw" "categories_list env ! i"
            "similarity env ?q (category_embeddings env ! i)"]
        obtain j r where
          "first_argmax (map (\<lambda>row. similarity env ?q (encode env (keyword row))) keyword_df) j"
          "match_keyword env (strip kw) ?q (categories_list env ! i)
             (similarity env ?q (category_embeddings env ! i)) keyword_df = Inr (Match r, 200)"
          "r_matched_category r = categories_list env ! i"
          "r_category_similarity r = round3 env (similarity env ?q (category_embeddings env ! i))"
          "r_matched_keyword r = keyword (keyword_df ! j)"
          "r_keyword_similarity r =
             round3 env (similarity env ?q (encode env (keyword (keyword_df ! j))))"
          "r_phase r = phase (keyword_df ! j)"
          "r_velocity r = velocity (keyword_df ! j)"
          "r_engagement_rate r = engagement_rate (keyword_df ! j)"
          by blast
        with Some Table False t show ?thesis
          by (simp add: keyword_checker_def) blast
      qed
    qed
  qed
  with i show ?thesis by blast
qed

theorem matching_selects_first_argmax_witness:
  "map_of [(''keyword'', JStr ''dewy glow serum'')] ''keyword'' = Some (JStr ''dewy glow serum'')
   \<and> strip ''dewy glow serum'' \<noteq> []
   \<and> category_embeddings
         (example_env [csv_filename ''Skincare & Anti-Aging'' \<mapsto> Table example_rows]) \<noteq> []
   \<and> length (categories_list
         (example_env [csv_filename ''Skincare & Anti-Aging'' \<mapsto> Table example_rows]))
       = length (category_embeddings
         (example_env [csv_filename ''Skincare & Anti-Aging'' \<mapsto> Table example_rows]))
   \<and> first_argmax [1, 0, 1] 0
   \<and> (\<exists>r. keyword_checker
              (example_env [csv_filename ''Skincare & Anti-Aging'' \<mapsto> Table example_rows])
              (example_request ''dewy glow serum'') = (Match r, 200)
          \<and> r_matched_category r = ''Skincare & Anti-Aging''
          \<and> r_matched_keyword r = ''hyaluronic acid''
          \<and> r_phase r = ''Growing'')"
proof -
  let ?env = "example_env [csv_filename ''Skincare & Anti-Aging'' \<mapsto> Table example_rows]"
  let ?d = "[(''keyword'', JStr ''dewy glow serum'')]"
  have a1: "map_of ?d ''keyword'' = Some (JStr ''dewy glow serum'')" by simp
  have a2: "strip ''dewy glow serum'' \<noteq> []" by (simp add: example_strip)
  have a3: "category_embeddings ?env \<noteq> []" by (simp add: example_env_def)
  have a4: "length (categories_list ?env) = length (category_embeddings ?env)"
    by (simp add: example_env_def)
  from matching_selects_first_argmax [of ?d "''dewy glow serum''" ?env] a1 a2 a3 a4
  obtain i where i: "first_argmax [1, 0, 1] i"
    and c: "case files ?env (csv_filename (categories_list ?env ! i)) of
          None \<Rightarrow> True
        | Some Unreadable \<Rightarrow> True
        | Some (Table keyword_df) \<Rightarrow>
            if keyword_df = [] then True
            else
              \<exists>j r. first_argmax
                       (map (\<lambda>row. similarity ?env (encode ?env ''dewy glow serum'')
                                     (encode ?env (keyword row))) keyword_df) j
                \<and> keyword_checker ?env (Json (JObj ?d)) = (Match r, 200)
                \<and> r_matched_category r = categories_list ?env ! i
                \<and> r_matched_keyword r = keyword (keyword_df ! j)
                \<and> r_phase r = phase (keyword_df ! j)"
    unfolding example_strip example_similarities
    by (fastforce split: option.splits csv_file.splits if_splits)
  from i first_argmax_example have i0: "i = 0" by (rule first_argmax_unique)
  have f: "files ?env (csv_filename (categories_list ?env ! 0)) = Some (Table example_rows)"
    by (simp add: example_env_def)
  have ne: "example_rows \<noteq> []" by (simp add: example_rows_def)
  from c have "\<exists>j r. first_argmax
                       (map (\<lambda>row. similarity ?env (encode ?env ''dewy glow serum'')
                                     (encode ?env (keyword row))) example_rows) j
                \<and> keyword_checker ?env (Json (JObj ?d)) = (Match r, 200)
                \<and> r_matched_category r = categories_list ?env ! 0
                \<and> r_matched_keyword r = keyword (example_rows ! j)
                \<and> r_phase r = phase (example_rows ! j)"
    unfolding i0 f using ne by simp
  then obtain j r where j: "first_argmax [1, 0, 1] j"
    and r: "keyword_checker ?env (Json (JObj ?d)) = (Match r, 200)"
      "r_matched_category r = categories_list ?env ! 0"
      "r_matched_keyword r = keyword (example_rows ! j)"
      "r_phase r = phase (example_rows ! j)"
    unfolding example_keyword_similarities by blast
  from j first_argmax_example have j0: "j = 0" by (rule first_argmax_unique)
  from r have "keyword_checker ?env (example_request ''dewy glow serum'') = (Match r, 200)
      \<and> r_matched_category r = ''Skincare & Anti-Aging''
      \<and> r_matched_keyword r = ''hyaluronic acid''
      \<and> r_phase r = ''Growing''"
    unfolding j0 by (simp add: example_request_def example_env_def example_rows_def)
  with a1 a2 a3 a4 first_argmax_example show ?thesis by blast
qed

text \<open>
  The partial failure. When the dataset file of the matched category (the first one of
  greatest similarity) does not exist, or holds a table without rows, the answer has
  status 404 and its body carries an error message, the name of that category and its
  similarity to the query.
\<close>

lemma missing_dataset_keeps_category:
  assumes "map_of kvs ''keyword'' = Some (JStr kw)" and "strip kw \<noteq> []"
    and "category_embeddings env \<noteq> []"
    and "length (categories_list env) = length (category_embeddings env)"
    and "first_argmax (map (similarity env (encode env (strip kw))) (category_embeddings env)) i"
    and "files env (csv_filename (categories_list env ! i)) = None
         \<or> files env (csv_filename (categories_list env ! i)) = Some (Table [])"
  shows "\<exists>msg. keyword_checker env (Json (JObj kvs)) =
     (CategoryError msg (categories_list env ! i)
        (map (similarity env (encode env (strip kw))) (category_embeddings env) ! i), 404)"
proof -
  let ?sims = "map (similarity env (encode env (strip kw))) (category_embeddings env)"
  from keyword_checker_try_category [of kvs kw env] assms(1-4)
  obtain i' where i': "first_argmax ?sims i'"
    and t: "keyword_checker_try env (Json (JObj kvs)) =
       (case files env (csv_filename (categories_list env ! i')) of
          None \<Rightarrow> Inr (CategoryError
                        (''Data file not found for category: '' @ categories_list env ! i')
                        (categories_list env ! i')
                        (similarity env (encode env (strip kw)) (category_embeddings env ! i')), 404)
        | Some Unreadable \<Rightarrow> Inl ParserError
        | Some (Table keyword_df) \<Rightarrow>
            if keyword_df = [] then
              Inr (CategoryError
                     (''No keyword data found for category: '' @ categories_list env ! i')
                     (categories_list env ! i')
                     (similarity env (encode env (strip kw)) (category_embeddings env ! i')), 404)
            else match_keyword env (strip kw) (encode env (strip kw)) (categories_list env ! i')
                   (similarity env (encode env (strip kw)) (category_embeddings env ! i'))
                   keyword_df)"
    by blast
  from i' assms(5) have eq: "i' = i" by (rule first_argmax_unique)
  from assms(5) have "i < length (category_embeddings env)"
    by (simp add: first_argmax_def)
  then have nth: "?sims ! i = similarity env (encode env (strip kw)) (category_embeddings env ! i)"
    by simp
  from assms(6) show ?thesis
  proof
    assume "files env (csv_filename (categories_list env ! i)) = None"
    with t eq nth show ?thesis by (simp add: keyword_checker_def)
  next
    assume "files env (csv_filename (categories_list env ! i)) = Some (Table [])"
    with t eq nth show ?thesis by (simp add: keyword_checker_def)
  qed
qed

lemma missing_dataset_keeps_category_example:
  "map_of [(''keyword'', JStr ''dewy glow serum'')] ''keyword'' = Some (JStr ''dewy glow serum'')
   \<and> strip ''dewy glow serum'' \<noteq> []
   \<and> category_embeddings (example_env Map.empty) \<noteq> []
   \<and> length (categories_list (example_env Map.empty))
       = length (category_embeddings (example_env Map.empty))
   \<and> first_argmax [1, 0, 1] 0
   \<and> files (example_env Map.empty) (csv_filename ''Skincare & Anti-Aging'') = None
   \<and> (\<exists>msg. keyword_checker (example_env Map.empty) (example_request ''dewy glow serum'')
          = (CategoryError msg ''Skincare & Anti-Aging'' 1, 404))
   \<and> files (example_env [csv_filename ''Skincare & Anti-Aging'' \<mapsto> Table []])
        (csv_filename ''Skincare & Anti-Aging'') = Some (Table [])
   \<and> (\<exists>msg. keyword_checker (example_env [csv_filename ''Skincare & Anti-Aging'' \<mapsto> Table []])
             (example_request ''dewy glow serum'')
          = (CategoryError msg ''Skincare & Anti-Aging'' 1, 404))"
proof -
  let ?d = "[(''keyword'', JStr ''dewy glow serum'')]"
  let ?e2 = "example_env [csv_filename ''Skincare & Anti-Aging'' \<mapsto> Table []]"
  have a1: "map_of ?d ''keyword'' = Some (JStr ''dewy glow serum'')" by simp
  have a2: "strip ''dewy glow serum'' \<noteq> []" by (simp add: example_strip)
  have a3: "category_embeddings (example_env fs) \<noteq> []" for fs
    by (simp add: example_env_def)
  have a4: "length (categories_list (example_env fs)) = length (category_embeddings (example_env fs))"
    for fs by (simp add: example_env_def)
  have a5: "first_argmax (map (similarity (example_env fs)
               (encode (example_env fs) (strip ''dewy glow serum'')))
             (category_embeddings (example_env fs))) 0" for fs
    unfolding example_strip example_similarities by (rule first_argmax_example)
  have c0: "categories_list (example_env fs) ! 0 = ''Skincare & Anti-Aging''" for fs
    by (simp add: example_env_def)
  have f1: "files (example_env Map.empty) (csv_filename ''Skincare & Anti-Aging'') = None"
    by (simp add: example_env_def)
  have f2: "files ?e2 (csv_filename ''Skincare & Anti-Aging'') = Some (Table [])"
    by (simp add: example_env_def)
  from missing_dataset_keeps_category [of ?d "''dewy glow serum''" "example_env Map.empty" 0]
    a1 a2 a3 a4 a5 f1
  have r1: "\<exists>msg. keyword_checker (example_env Map.empty) (example_request ''dewy glow serum'')
          = (CategoryError msg ''Skincare & Anti-Aging'' 1, 404)"
    unfolding c0 example_strip example_similarities by (simp add: example_request_def)
  from missing_dataset_keeps_category [of ?d "''dewy glow serum''" ?e2 0]
    a1 a2 a3 a4 a5 f2
  have r2: "\<exists>msg. keyword_checker ?e2 (example_request ''dewy glow serum'')
          = (CategoryError msg ''Skincare & Anti-Aging'' 1, 404)"
    unfolding c0 example_strip example_similarities by (simp add: example_request_def)
  from a1 a2 a3 a4 first_argmax_example f1 f2 r1 r2 show ?thesis by blast
qed

text \<open>
  C7. The guard for a dataset without rows misses one such file. A dataset file of zero
  bytes exists and has no rows, but \<open>pd.read_csv\<close> raises on it before
  \<open>keyword_df.empty\<close> is tested: the answer is status 500 with the generic internal-error
  body, and the category and its similarity are lost. The two sibling cases, a missing
  file and a file with a header line only, are answered with status 404, the category
  and its similarity.
\<close>

theorem zero_byte_dataset_internal_error:
  "keyword_checker (example_env [csv_filename ''Skincare & Anti-Aging'' \<mapsto> Unreadable])
       (example_request ''dewy glow serum'')
     = (InternalServerError ParserError, 500)
   \<and> keyword_checker (example_env Map.empty) (example_request ''dewy glow serum'')
     = (CategoryError ''Data file not found for category: Skincare & Anti-Aging''
          ''Skincare & Anti-Aging'' 1, 404)
   \<and> keyword_checker (example_env [csv_filename ''Skincare & Anti-Aging'' \<mapsto> Table []])
       (example_request ''dewy glow serum'')
     = (CategoryError ''No keyword data found for category: Skincare & Anti-Aging''
          ''Skincare & Anti-Aging'' 1, 404)"
proof -
  have a: "argmax [1, 0, 1] = Inr 0"
    by (simp add: argmax_def)
  have m: "match_category (example_env fs) ''dewy glow serum'' =
     (case fs (csv_filename ''Skincare & Anti-Aging'') of
        None \<Rightarrow> Inr (CategoryError ''Data file not found for category: Skincare & Anti-Aging''
                       ''Skincare & Anti-Aging'' 1, 404)
      | Some Unreadable \<Rightarrow> Inl ParserError
      | Some (Table keyword_df) \<Rightarrow>
          if keyword_df = [] then
            Inr (CategoryError ''No keyword data found for category: Skincare & Anti-Aging''
                   ''Skincare & Anti-Aging'' 1, 404)
          else match_keyword (example_env fs) ''dewy glow serum'' [1, 0]
                 ''Skincare & Anti-Aging'' 1 keyword_df)" for fs
    unfolding match_category_def cosine_similarity_def Let_def example_similarities
    by (simp add: a)
       (auto simp: example_env_def example_encode_def split: option.split csv_file.split)
  show ?thesis
    by (simp add: keyword_checker_def keyword_checker_try_def example_request_def
        example_strip m)
qed

section \<open>Properties of the narrative generator\<close>

text \<open>
  C1. The fallback of a generator without an LLM client breaks the contract: it has 2
  insights and 2 recommendations. The fallback for an invocation that raises has 3 and
  3, as has the fallback of the parser; every trend sentence is non-empty.
\<close>

theorem unavailable_fallback_two_items:
  "analyze_keyword_with_llm None (\<lambda>n x. ''0.0'') ''dewy glow serum''
      ''Skincare & Anti-Aging'' ''Growing'' 12.3 0.045 ''hyaluronic acid''
     = service_unavailable_fallback
   \<and> future_trend service_unavailable_fallback \<noteq> []
   \<and> length (insights service_unavailable_fallback) = 2
   \<and> length (recommendations service_unavailable_fallback) = 2
   \<and> analyze_keyword_with_llm (Some (\<lambda>p. Inl ServiceError)) (\<lambda>n x. ''0.0'')
        ''dewy glow serum'' ''Skincare & Anti-Aging'' ''Growing'' 12.3 0.045 ''hyaluronic acid''
     = service_failed_fallback
   \<and> future_trend service_failed_fallback \<noteq> []
   \<and> length (insights service_failed_fallback) = 3
   \<and> length (recommendations service_failed_fallback) = 3
   \<and> length (insights parse_failure_fallback) = 3
   \<and> length (recommendations parse_failure_fallback) = 3"
  by (simp add: analyze_keyword_with_llm_def service_unavailable_fallback_def
      service_failed_fallback_def parse_failure_fallback_def)

section \<open>Properties of the reporting endpoints\<close>

text \<open>
  C8. The sign convention is not kept by every endpoint. In the category breakdown a
  category without keywords has growth 0 and its figure gets no plus sign, while the
  trend analysis puts one before 0; and the trend summary puts a plus sign before every
  figure, also before a negative one.
\<close>

theorem growth_sign_not_uniform:
  "bd_growth (category_breakdown_entry fmt [] name) = fmt 1 0 @ ''%''
   \<and> change_str fmt 0 = ''+'' @ fmt 1 0 @ ''%''
   \<and> get_trend_summary fmt example_negative_trends =
       Inr \<lparr>ts_categories_trending_up_percentage = fmt 0 0 @ ''%'',
            ts_highest_growth = ''+'' @ fmt 1 (- 3) @ ''%'',
            ts_hot_keywords_count = 0,
            ts_avg_category_growth = ''+'' @ fmt 1 (- 3) @ ''%''\<rparr>"
  by (simp add: category_breakdown_entry_def change_str_def get_trend_summary_def
      example_negative_trends_def average_growth_def growth_rate_of_def Let_def)

end
